theory Spec2Isabelle
  imports Main
begin

unbundle bit_operations_syntax

section \<open>Go strings and byte slices\<close>

text \<open>
  A Go \<^verbatim>\<open>string\<close> and a \<^verbatim>\<open>[]byte\<close> are both sequences of bytes, and the
  conversions between them copy the bytes unchanged; both are modelled as \<^typ>\<open>string\<close>
  (a list of 8-bit characters).
\<close>

definition HasPrefix :: "string \<Rightarrow> string \<Rightarrow> bool" where
  "HasPrefix s p = (length p \<le> length s \<and> take (length p) s = p)"

definition HasSuffix :: "string \<Rightarrow> string \<Rightarrow> bool" where
  "HasSuffix s suffix =
     (length suffix \<le> length s \<and> drop (length s - length suffix) s = suffix)"

definition TrimPrefix :: "string \<Rightarrow> string \<Rightarrow> string" where
  "TrimPrefix s p = (if HasPrefix s p then drop (length p) s else s)"

definition TrimSuffix :: "string \<Rightarrow> string \<Rightarrow> string" where
  "TrimSuffix s suffix = (if HasSuffix s suffix then take (length s - length suffix) s else s)"

section \<open>Credential hashing and encryption (apps/controller/crypto.go)\<close>

subsection \<open>encoding/hex\<close>

datatype crypto_error =
    InvalidByteError char
  | ErrLength
  | KeySizeError nat
  | ErrUnexpectedEOF
  | ErrOpen
  | PanicNonceLength

definition hextable :: string where
  "hextable = ''0123456789abcdef''"

fun EncodeToString :: "string \<Rightarrow> string" where
  "EncodeToString [] = []"
| "EncodeToString (v # src) =
     hextable ! ((of_char v :: nat) div 16) # hextable ! ((of_char v :: nat) mod 16)
       # EncodeToString src"

definition fromHexChar :: "char \<Rightarrow> nat option" where
  "fromHexChar c =
     (let n = (of_char c :: nat) in
      if 48 \<le> n \<and> n \<le> 57 then Some (n - 48)
      else if 97 \<le> n \<and> n \<le> 102 then Some (n - 97 + 10)
      else if 65 \<le> n \<and> n \<le> 70 then Some (n - 65 + 10)
      else None)"

fun DecodeString :: "string \<Rightarrow> crypto_error + string" where
  "DecodeString [] = Inr []"
| "DecodeString [p] =
     (case fromHexChar p of None \<Rightarrow> Inl (InvalidByteError p) | Some a \<Rightarrow> Inl ErrLength)"
| "DecodeString (p # q # src) =
     (case fromHexChar p of
        None \<Rightarrow> Inl (InvalidByteError p)
      | Some a \<Rightarrow>
          (case fromHexChar q of
             None \<Rightarrow> Inl (InvalidByteError q)
           | Some b \<Rightarrow>
               (case DecodeString src of
                  Inl e \<Rightarrow> Inl e
                | Inr dst \<Rightarrow> Inr (char_of (a * 16 + b) # dst))))"

subsection \<open>The library primitives\<close>

text \<open>
  \<^verbatim>\<open>crypto/sha256\<close>, \<^verbatim>\<open>crypto/aes\<close> and \<^verbatim>\<open>crypto/cipher\<close> belong to the Go
  standard library, not to this repository. What crypto.go relies on is their shape:
  SHA-256 maps a message to a 256-bit digest; AES-GCM encrypts in counter mode (the
  plaintext is XORed bytewise with a key stream that depends on key and nonce) and
  appends a 128-bit authentication tag computed from key, nonce and ciphertext. The key
  stream, the tag and the digest are parameters of the model; nothing is assumed
  about them.
\<close>

record crypto_lib =
  sha256_digest :: "string \<Rightarrow> nat"
  keystream :: "string \<Rightarrow> string \<Rightarrow> nat \<Rightarrow> char"
  ghash_tag :: "string \<Rightarrow> string \<Rightarrow> string \<Rightarrow> nat"

definition be_bytes :: "nat \<Rightarrow> nat \<Rightarrow> string" where
  "be_bytes len n = map (\<lambda>i. char_of (n div 256 ^ (len - 1 - i) mod 256)) [0..<len]"

definition xor_byte :: "char \<Rightarrow> char \<Rightarrow> char" where
  "xor_byte a b = char_of ((of_char a :: nat) XOR of_char b)"

definition ctr_xor :: "crypto_lib \<Rightarrow> string \<Rightarrow> string \<Rightarrow> string \<Rightarrow> string" where
  "ctr_xor lib key nonce src =
     map (\<lambda>(i, b). xor_byte b (keystream lib key nonce i)) (enumerate 0 src)"

definition valid_key_size :: "string \<Rightarrow> bool" where
  "valid_key_size key = (length key = 16 \<or> length key = 24 \<or> length key = 32)"

definition Seal :: "crypto_lib \<Rightarrow> string \<Rightarrow> string \<Rightarrow> string \<Rightarrow> string" where
  "Seal lib key nonce plaintext =
     (let c = ctr_xor lib key nonce plaintext
      in c @ be_bytes 16 (ghash_tag lib key nonce c))"

definition Open :: "crypto_lib \<Rightarrow> string \<Rightarrow> string \<Rightarrow> string \<Rightarrow> crypto_error + string" where
  "Open lib key nonce ciphertext =
     (if length nonce \<noteq> 12 then Inl PanicNonceLength
      else if length ciphertext < 16 then Inl ErrOpen
      else
        let c = take (length ciphertext - 16) ciphertext;
            tag = drop (length ciphertext - 16) ciphertext
        in if tag \<noteq> be_bytes 16 (ghash_tag lib key nonce c) then Inl ErrOpen
           else Inr (ctr_xor lib key nonce c))"

subsection \<open>HashToken, Encrypt, Decrypt\<close>

definition HashToken :: "crypto_lib \<Rightarrow> string \<Rightarrow> string" where
  "HashToken lib token = EncodeToString (be_bytes 32 (sha256_digest lib token))"

text \<open>
  \<^verbatim>\<open>Encrypt\<close> reads its nonce with \<^verbatim>\<open>io.ReadFull(rand.Reader, nonce)\<close>: the
  argument \<open>rnd\<close> is the byte supply of the random source, of which exactly 12 bytes are
  consumed, and a shorter supply is the read error. \<open>encryptionKey\<close> is the package
  variable set by \<^verbatim>\<open>InitCrypto\<close>.
\<close>

definition Encrypt ::
  "crypto_lib \<Rightarrow> string \<Rightarrow> string \<Rightarrow> string \<Rightarrow> crypto_error + (string \<times> string)" where
  "Encrypt lib encryptionKey rnd plaintext =
     (if \<not> valid_key_size encryptionKey then Inl (KeySizeError (length encryptionKey))
      else if length rnd < 12 then Inl ErrUnexpectedEOF
      else
        let nonce = take 12 rnd;
            ciphertext = Seal lib encryptionKey nonce plaintext
        in Inr (EncodeToString ciphertext, EncodeToString nonce))"

definition Decrypt ::
  "crypto_lib \<Rightarrow> string \<Rightarrow> string \<Rightarrow> string \<Rightarrow> crypto_error + string" where
  "Decrypt lib encryptionKey encryptedHex ivHex =
     (case DecodeString encryptedHex of
        Inl e \<Rightarrow> Inl e
      | Inr ciphertext \<Rightarrow>
          (case DecodeString ivHex of
             Inl e \<Rightarrow> Inl e
           | Inr nonce \<Rightarrow>
               if \<not> valid_key_size encryptionKey
               then Inl (KeySizeError (length encryptionKey))
               else Open lib encryptionKey nonce ciphertext))"

section \<open>The controller (apps/controller/main.go)\<close>

subsection \<open>Data model\<close>

text \<open>
  The records carry the fields that the modelled functions read or write. Field names
  of \<^verbatim>\<open>Destination\<close> and \<^verbatim>\<open>SRSStream\<close> are prefixed, since record fields share one
  name space. Go's \<^verbatim>\<open>int\<close> is modelled as \<^typ>\<open>int\<close>.
\<close>

record Destination =
  DestID :: int
  DestName :: string
  DestRTMPURL :: string
  DestEnabled :: bool
  DestStatus :: string

record Channel =
  ID :: int
  Name :: string
  OBSToken :: string
  LoopToken :: string
  LoopEnabled :: bool
  Enabled :: bool
  ActiveSource :: string
  OBSOverrideEnabled :: bool
  FailoverTimeout :: int
  Destinations :: "Destination list"
  ObsSourceStream :: string

record SRSStream =
  PublishActive :: bool
  KbpsRecv :: int
  VideoWidth :: int

record LogEntry =
  LogID :: int
  Timestamp :: int
  Level :: string
  Component :: string
  Message :: string

text \<open>
  The controller's shared state. Instants (\<^verbatim>\<open>time.Time\<close>) are integers counting
  nanoseconds; \<open>StabilityWindow\<close> is \<^verbatim>\<open>c.Config.StabilityWindow\<close>.
\<close>

record Controller =
  StabilityWindow :: int
  HealthHistory :: "string \<rightharpoonup> bool list"
  LogBuffer :: "LogEntry list"
  takeoverCooldown :: "string \<rightharpoonup> int"
  activeSourceMap :: "string \<rightharpoonup> string"
  manualLoopOverride :: "string \<rightharpoonup> bool"
  logID :: int

definition NewController :: "int \<Rightarrow> Controller" where
  "NewController window =
     \<lparr>StabilityWindow = window, HealthHistory = Map.empty, LogBuffer = [],
      takeoverCooldown = Map.empty, activeSourceMap = Map.empty,
      manualLoopOverride = Map.empty, logID = 0\<rparr>"

text \<open>
  Calls that leave the controller process (the Docker API, goroutines started with
  \<^verbatim>\<open>go\<close>, the relay supervisor) are recorded, in program order, as effects.
  \<open>ContainerRemove n\<close> is the forced \<^verbatim>\<open>c.Docker.ContainerRemove\<close> of container \<open>n\<close>;
  the \<open>Call_\<close> effects are calls of the controller methods of that name, whose bodies
  (container creation, relay configuration) are not unfolded here; the \<open>Go_\<close> effects
  are those methods started asynchronously. Lines printed with \<^verbatim>\<open>log.Printf\<close> go to
  standard output only and are left out.
\<close>

datatype effect =
    ContainerRemove string
  | Call_EnsureContainerRunning Channel string
  | Call_EnsureRelayRunning Channel "Destination list" string
  | Call_UpdateDestinationStatus int string
  | Go_UpdateActiveSource int string
  | Go_EnsureContainerStopped string

subsection \<open>Logging and health history\<close>

definition Log :: "Controller \<Rightarrow> int \<Rightarrow> string \<Rightarrow> string \<Rightarrow> string \<Rightarrow> Controller" where
  "Log c now level component message =
     (let entry = \<lparr>LogID = logID c + 1, Timestamp = now, Level = level,
                    Component = component, Message = message\<rparr>;
          buf = LogBuffer c @ [entry]
      in c\<lparr>logID := logID c + 1,
           LogBuffer := (if length buf > 1000 then tl buf else buf)\<rparr>)"

definition history_of :: "Controller \<Rightarrow> string \<Rightarrow> bool list" where
  "history_of c key = (case HealthHistory c key of None \<Rightarrow> [] | Some h \<Rightarrow> h)"

definition UpdateHealthHistory :: "Controller \<Rightarrow> string \<Rightarrow> bool \<Rightarrow> Controller" where
  "UpdateHealthHistory c key healthy =
     (let history = history_of c key @ [healthy];
          history = (if int (length history) > StabilityWindow c then tl history else history)
      in c\<lparr>HealthHistory := (HealthHistory c)(key \<mapsto> history)\<rparr>)"

definition IsStable :: "Controller \<Rightarrow> string \<Rightarrow> bool \<Rightarrow> bool" where
  "IsStable c key expectedState =
     (let history = history_of c key
      in if int (length history) < StabilityWindow c then False
         else list_all (\<lambda>h. h = expectedState) history)"

subsection \<open>Supervision calls\<close>

definition EnsureContainerStopped :: "string \<Rightarrow> effect list" where
  "EnsureContainerStopped containerName = [ContainerRemove containerName]"

definition ReconcileDestinations :: "Channel \<Rightarrow> bool \<Rightarrow> effect list" where
  "ReconcileDestinations ch streamActive =
     (let containerName = ''relay-'' @ Name ch;
          enabledDests = filter DestEnabled (Destinations ch)
      in if \<not> streamActive \<or> length enabledDests = 0
         then EnsureContainerStopped containerName
              @ map (\<lambda>dest. Call_UpdateDestinationStatus (DestID dest) ''DISCONNECTED'')
                  (filter (\<lambda>dest. DestStatus dest \<noteq> ''DISCONNECTED'') (Destinations ch))
         else [Call_EnsureRelayRunning ch enabledDests containerName])"

subsection \<open>Durations\<close>

definition wrap64 :: "int \<Rightarrow> int" where
  "wrap64 x = (x + 2 ^ 63) mod 2 ^ 64 - 2 ^ 63"

definition Second :: int where
  "Second = 1000000000"

text \<open>\<^verbatim>\<open>time.Since\<close> saturates at the ends of the 64-bit \<^verbatim>\<open>Duration\<close> range.\<close>

definition Since :: "int \<Rightarrow> int \<Rightarrow> int" where
  "Since now t = max (- (2 ^ 63)) (min (2 ^ 63 - 1) (now - t))"

text \<open>Lines 412--415: the channel's failover timeout, 60 s when it is not positive.\<close>

definition failoverTimeout :: "Channel \<Rightarrow> int" where
  "failoverTimeout ch =
     (let d = wrap64 (FailoverTimeout ch * Second)
      in if d \<le> 0 then 60 * Second else d)"

subsection \<open>ReconcileChannel\<close>

text \<open>
  The local variables of \<^verbatim>\<open>ReconcileChannel\<close> that depend only on the channel and
  the stream map (lines 315--335).
\<close>

definition loopAlive :: "Channel \<Rightarrow> (string \<rightharpoonup> SRSStream) \<Rightarrow> bool" where
  "loopAlive ch streams = (streams (Name ch) \<noteq> None)"

definition obsDetect :: "Channel \<Rightarrow> (string \<rightharpoonup> SRSStream) \<Rightarrow> SRSStream option \<times> string" where
  "obsDetect ch streams =
     (case streams (Name ch @ ''-obs'') of
        Some s \<Rightarrow> (Some s, Name ch @ ''-obs'')
      | None \<Rightarrow>
          if OBSToken ch \<noteq> ''''
          then (case streams (OBSToken ch) of
                  Some stream \<Rightarrow> (Some stream, OBSToken ch)
                | None \<Rightarrow> (None, Name ch @ ''-obs''))
          else (None, Name ch @ ''-obs''))"

definition obsAlive :: "Channel \<Rightarrow> (string \<rightharpoonup> SRSStream) \<Rightarrow> bool" where
  "obsAlive ch streams = (fst (obsDetect ch streams) \<noteq> None)"

definition isLoopRobust :: "Channel \<Rightarrow> (string \<rightharpoonup> SRSStream) \<Rightarrow> bool" where
  "isLoopRobust ch streams =
     (case streams (Name ch) of
        None \<Rightarrow> False
      | Some loopStream \<Rightarrow>
          PublishActive loopStream \<and> (KbpsRecv loopStream > 0 \<or> VideoWidth loopStream > 0))"

definition isObsRobust :: "Channel \<Rightarrow> (string \<rightharpoonup> SRSStream) \<Rightarrow> bool" where
  "isObsRobust ch streams =
     (case fst (obsDetect ch streams) of
        None \<Rightarrow> False
      | Some obsStream \<Rightarrow> PublishActive obsStream \<and> KbpsRecv obsStream > 100)"

text \<open>
  Lines 346--360: the in-memory source, \<open>LOOP\<close> when the map has none, replaced by the
  persisted value \<^verbatim>\<open>ch.ActiveSource\<close> when that is set and differs.
\<close>

definition memorySource :: "Controller \<Rightarrow> Channel \<Rightarrow> string" where
  "memorySource c ch =
     (let currentSource = (case activeSourceMap c (Name ch) of None \<Rightarrow> '''' | Some s \<Rightarrow> s)
      in if currentSource = '''' then ''LOOP'' else currentSource)"

definition syncFromDatabase :: "Controller \<Rightarrow> Channel \<Rightarrow> Controller \<times> string" where
  "syncFromDatabase c ch =
     (let currentSource = memorySource c ch
      in if ActiveSource ch \<noteq> '''' \<and> ActiveSource ch \<noteq> currentSource
         then (c\<lparr>activeSourceMap := (activeSourceMap c)(Name ch \<mapsto> ActiveSource ch)\<rparr>,
               ActiveSource ch)
         else (c, currentSource))"

text \<open>Lines 362--374: reading the manual override and clearing it when OBS is down.\<close>

definition hasManualLoopOverride :: "Controller \<Rightarrow> string \<Rightarrow> bool" where
  "hasManualLoopOverride c name =
     (case manualLoopOverride c name of None \<Rightarrow> False | Some b \<Rightarrow> b)"

definition clearOverride :: "Controller \<Rightarrow> Channel \<Rightarrow> bool \<Rightarrow> Controller \<times> bool" where
  "clearOverride c ch obsRobust =
     (if \<not> obsRobust \<and> hasManualLoopOverride c (Name ch)
      then (c\<lparr>manualLoopOverride := (manualLoopOverride c)(Name ch := None)\<rparr>, False)
      else (c, hasManualLoopOverride c (Name ch)))"

text \<open>Lines 376--390: the automatic switch to OBS.\<close>

definition autoSwitch ::
  "Controller \<Rightarrow> int \<Rightarrow> Channel \<Rightarrow> bool \<Rightarrow> string \<Rightarrow> bool
     \<Rightarrow> Controller \<times> effect list \<times> string" where
  "autoSwitch c now ch obsRobust currentSource override =
     (if OBSOverrideEnabled ch \<and> obsRobust \<and> currentSource \<noteq> ''OBS'' \<and> \<not> override
      then (Log (c\<lparr>activeSourceMap := (activeSourceMap c)(Name ch \<mapsto> ''OBS'')\<rparr>) now
              ''info'' ''switch'' (''Channel '' @ Name ch @ '' auto-switched to OBS (connected)''),
            [Go_UpdateActiveSource (ID ch) ''OBS''],
            ''OBS'')
      else (c, [], currentSource))"

text \<open>Lines 407--437: takeover cooldown, loop supervision, relay supervision.\<close>

definition superviseLoop ::
  "Controller \<Rightarrow> int \<Rightarrow> Channel \<Rightarrow> (string \<rightharpoonup> SRSStream) \<Rightarrow> Controller \<times> effect list" where
  "superviseLoop c now ch streams =
     (let containerName = ''loop-'' @ Name ch;
          resume = (if LoopEnabled ch then [Call_EnsureContainerRunning ch containerName]
                    else EnsureContainerStopped containerName)
                   @ ReconcileDestinations ch
                       (obsAlive ch streams \<or> loopAlive ch streams \<or> LoopEnabled ch)
      in case takeoverCooldown c (Name ch) of
           Some cooldownTime \<Rightarrow>
             if Since now cooldownTime < failoverTimeout ch
             then (c, EnsureContainerStopped containerName
                      @ ReconcileDestinations ch (obsAlive ch streams \<or> loopAlive ch streams))
             else (c\<lparr>takeoverCooldown := (takeoverCooldown c)(Name ch := None)\<rparr>, resume)
         | None \<Rightarrow> (c, resume))"

definition ReconcileChannel ::
  "Controller \<Rightarrow> int \<Rightarrow> Channel \<Rightarrow> (string \<rightharpoonup> SRSStream) \<Rightarrow> Controller \<times> effect list" where
  "ReconcileChannel c now ch streams =
     (if \<not> Enabled ch
      then (c, EnsureContainerStopped (''loop-'' @ Name ch) @ ReconcileDestinations ch False)
      else
        let c = UpdateHealthHistory c (Name ch @ ''_loop'') (isLoopRobust ch streams);
            c = UpdateHealthHistory c (Name ch @ ''_obs'') (isObsRobust ch streams);
            (c, currentSource) = syncFromDatabase c ch;
            (c, override) = clearOverride c ch (isObsRobust ch streams);
            (c, switched, currentSource) =
               autoSwitch c now ch (isObsRobust ch streams) currentSource override;
            ch' = ch\<lparr>ObsSourceStream := snd (obsDetect ch streams),
                     ActiveSource := currentSource\<rparr>;
            (c, supervised) = superviseLoop c now ch' streams
        in (c, switched @ supervised))"

subsection \<open>The store\<close>

text \<open>
  The relational store is modelled by the two tables the hooks touch, each a list of
  rows in insertion order, with the columns the modelled statements name. A
  \<^verbatim>\<open>QueryRow\<close> yields the first row that satisfies the \<^verbatim>\<open>WHERE\<close> clause, or
  \<^verbatim>\<open>sql.ErrNoRows\<close> (here \<open>None\<close>); statements are taken to reach the store and to
  pass its column checks, so \<^verbatim>\<open>Exec\<close> always applies its change.
\<close>

record channel_row =
  row_id :: int
  row_name :: string
  row_enabled :: bool
  obs_token_hash :: "string option"
  loop_token_hash :: "string option"
  obs_token :: string
  loop_token :: string
  current_active_source :: string
  failover_timeout_seconds :: int

record audit_row =
  audit_action :: string
  audit_resource_type :: string
  audit_resource_id :: string
  audit_details :: string
  audit_ip_address :: string

record DB =
  channels :: "channel_row list"
  audit_logs :: "audit_row list"

definition set_source_by_name :: "DB \<Rightarrow> string \<Rightarrow> string \<Rightarrow> DB" where
  "set_source_by_name db name source =
     db\<lparr>channels :=
          map (\<lambda>r. if row_name r = name then r\<lparr>current_active_source := source\<rparr> else r)
            (channels db)\<rparr>"

definition set_source_by_id :: "DB \<Rightarrow> int \<Rightarrow> string \<Rightarrow> DB" where
  "set_source_by_id db channelID source =
     db\<lparr>channels :=
          map (\<lambda>r. if row_id r = channelID then r\<lparr>current_active_source := source\<rparr> else r)
            (channels db)\<rparr>"

definition insert_audit :: "DB \<Rightarrow> audit_row \<Rightarrow> DB" where
  "insert_audit db row = db\<lparr>audit_logs := audit_logs db @ [row]\<rparr>"

text \<open>\<^verbatim>\<open>UpdateActiveSource\<close> (lines 889--897), run against the store.\<close>

definition UpdateActiveSource :: "DB \<Rightarrow> int \<Rightarrow> string \<Rightarrow> DB" where
  "UpdateActiveSource db channelID source = set_source_by_id db channelID source"

subsection \<open>HTTP requests and responses\<close>

text \<open>
  A hook request is its raw body together with the outcome of \<^verbatim>\<open>json.Unmarshal\<close>
  into the payload struct (\<open>None\<close> when it returns an error). A response is the status
  code and what was written: text, or the value handed to the JSON encoder.
\<close>

record hook_payload =
  Action :: string
  Stream :: string
  Param :: string
  IP :: string

record hook_request =
  Body :: string
  Payload :: "hook_payload option"

datatype response_body = Text string | Json "(string \<times> string) list"

record http_response =
  StatusCode :: nat
  Written :: response_body

definition http_Error :: "string \<Rightarrow> nat \<Rightarrow> http_response" where
  "http_Error msg code = \<lparr>StatusCode = code, Written = Text (msg @ [CHR 0x0A])\<rparr>"

definition accept_body :: http_response where
  "accept_body = \<lparr>StatusCode = 200, Written = Text ''0''\<rparr>"

subsection \<open>OnPublishHandler\<close>

text \<open>
  Lines 1915--1987 decide whether the publish is accepted; every rejection logs one line
  and answers with an error. \<open>Rejected level message response\<close> is such an exit,
  \<open>Accepted streamName sourceType\<close> the fall-through to line 1989.
\<close>

datatype auth_result =
    Rejected string string http_response
  | Accepted string string

definition lookupChannel :: "DB \<Rightarrow> string \<Rightarrow> (channel_row \<times> bool) option" where
  "lookupChannel db streamName =
     (case find (\<lambda>r. row_name r = streamName \<and> row_enabled r) (channels db) of
        Some r \<Rightarrow> Some (r, False)
      | None \<Rightarrow>
          (case find (\<lambda>r. obs_token r = streamName \<and> row_enabled r) (channels db) of
             Some r \<Rightarrow> Some (r, True)
           | None \<Rightarrow> None))"

definition matchToken :: "crypto_lib \<Rightarrow> channel_row \<Rightarrow> string \<Rightarrow> string option" where
  "matchToken lib ch token =
     (let tokenHash = HashToken lib token
      in if obs_token_hash ch = Some tokenHash then Some ''OBS''
         else if loop_token_hash ch = Some tokenHash then Some ''LOOP''
         else if token = obs_token ch then Some ''OBS''
         else if token = loop_token ch then Some ''LOOP''
         else None)"

definition authenticatePublish :: "crypto_lib \<Rightarrow> DB \<Rightarrow> hook_payload \<Rightarrow> auth_result" where
  "authenticatePublish lib db payload =
     (let token = TrimPrefix (Param payload) ''?token='';
          streamName = (if HasSuffix (Stream payload) ''-obs''
                        then TrimSuffix (Stream payload) ''-obs'' else Stream payload);
          tokenHash = HashToken lib token
      in case lookupChannel db streamName of
           None \<Rightarrow>
             Rejected ''warn''
               (''Rejected unknown stream: '' @ Stream payload @ '' (base: '' @ streamName @ '')'')
               (http_Error ''Unknown stream'' 403)
         | Some (ch, viaToken) \<Rightarrow>
             let isOBSStream = (HasSuffix (Stream payload) ''-obs'' \<or> viaToken)
             in if isOBSStream \<and> token \<noteq> obs_token ch
                   \<and> (case obs_token_hash ch of None \<Rightarrow> False | Some h \<Rightarrow> h \<noteq> tokenHash)
                then Rejected ''warn'' (''Invalid OBS token for stream: '' @ Stream payload)
                       (http_Error ''Invalid token'' 403)
                else
                  (case matchToken lib ch token of
                     None \<Rightarrow>
                       Rejected ''warn''
                         (''Invalid token for stream: '' @ Stream payload @ '' from '' @ IP payload)
                         (http_Error ''Invalid token'' 403)
                   | Some sourceType \<Rightarrow> Accepted streamName sourceType))"

definition publish_details :: "string \<Rightarrow> string" where
  "publish_details sourceType =
     ''{'' @ [CHR 0x22] @ ''source'' @ [CHR 0x22] @ '': '' @ [CHR 0x22] @ sourceType
       @ [CHR 0x22] @ ''}''"

definition OnPublishHandler ::
  "crypto_lib \<Rightarrow> Controller \<Rightarrow> DB \<Rightarrow> int \<Rightarrow> hook_request
     \<Rightarrow> Controller \<times> DB \<times> effect list \<times> http_response" where
  "OnPublishHandler lib c db now r =
     (let c = Log c now ''info'' ''auth'' (''Raw Publish Body: '' @ Body r)
      in case Payload r of
           None \<Rightarrow>
             (Log c now ''error'' ''auth'' ''Unmarshal failed'', db, [],
              http_Error ''Bad request'' 400)
         | Some payload \<Rightarrow>
             (case authenticatePublish lib db payload of
                Rejected level message response \<Rightarrow>
                  (Log c now level ''auth'' message, db, [], response)
              | Accepted streamName sourceType \<Rightarrow>
                  let c = Log c now ''info'' ''auth''
                            (''Accepted '' @ sourceType @ '' publish for '' @ Stream payload
                               @ '' from '' @ IP payload);
                      (c, db, stopped) =
                        (if sourceType = ''OBS''
                         then
                           let containerName = ''loop-'' @ streamName;
                               c = Log c now ''info'' ''failover''
                                     (''OBS connected for '' @ streamName
                                        @ '' - stopping loop container for automatic takeover'');
                               c = c\<lparr>takeoverCooldown :=
                                        (takeoverCooldown c)(streamName \<mapsto> now)\<rparr>
                           in (c, set_source_by_name db streamName ''OBS'',
                               [Go_EnsureContainerStopped containerName])
                         else (c, db, []));
                      db = insert_audit db
                             \<lparr>audit_action = ''STREAM_PUBLISH'',
                              audit_resource_type = ''channel'',
                              audit_resource_id = Stream payload,
                              audit_details = publish_details sourceType,
                              audit_ip_address = IP payload\<rparr>
                  in (c, db, stopped, accept_body)))"

subsection \<open>OnUnpublishHandler\<close>

definition unpublish_details :: string where
  "unpublish_details =
     ''{'' @ [CHR 0x22] @ ''source'' @ [CHR 0x22] @ '': '' @ [CHR 0x22] @ ''OBS'' @ [CHR 0x22]
       @ '', '' @ [CHR 0x22] @ ''action'' @ [CHR 0x22] @ '': '' @ [CHR 0x22]
       @ ''failback_to_loop'' @ [CHR 0x22] @ ''}''"

definition OnUnpublishHandler ::
  "Controller \<Rightarrow> DB \<Rightarrow> int \<Rightarrow> hook_request \<Rightarrow> Controller \<times> DB \<times> http_response" where
  "OnUnpublishHandler c db now r =
     (case Payload r of
        None \<Rightarrow> (c, db, accept_body)
      | Some payload \<Rightarrow>
          let token = TrimPrefix (Param payload) ''?token='';
              streamName = (if HasSuffix (Stream payload) ''-obs''
                            then TrimSuffix (Stream payload) ''-obs'' else Stream payload)
          in case find (\<lambda>r. row_name r = streamName) (channels db) of
               None \<Rightarrow> (c, db, accept_body)
             | Some row \<Rightarrow>
                 if token = obs_token row
                 then
                   let c = Log c now ''info'' ''failover''
                             (''OBS disconnected for '' @ streamName
                                @ '' - clearing cooldown to allow loop restart'');
                       c = c\<lparr>takeoverCooldown := (takeoverCooldown c)(streamName := None)\<rparr>;
                       db = set_source_by_name db streamName ''LOOP'';
                       db = insert_audit db
                              \<lparr>audit_action = ''STREAM_UNPUBLISH'',
                               audit_resource_type = ''channel'',
                               audit_resource_id = Stream payload,
                               audit_details = unpublish_details,
                               audit_ip_address = IP payload\<rparr>
                   in (c, db, accept_body)
                 else (c, db, accept_body))"

subsection \<open>Manual switches (ChannelActionHandler, lines 1545--1567)\<close>

text \<open>
  The two \<^verbatim>\<open>case\<close> branches of the action switch, entered with the channel \<open>name\<close>
  that the handler has read for \<open>channelID\<close>.
\<close>

definition switch_to_loop ::
  "Controller \<Rightarrow> DB \<Rightarrow> int \<Rightarrow> string \<Rightarrow> int \<Rightarrow> Controller \<times> DB" where
  "switch_to_loop c db now name channelID =
     (let c = Log c now ''info'' ''api'' (''Manually switching channel '' @ name @ '' to LOOP'');
          db = set_source_by_id db channelID ''LOOP'';
          c = c\<lparr>activeSourceMap := (activeSourceMap c)(name \<mapsto> ''LOOP''),
                manualLoopOverride := (manualLoopOverride c)(name \<mapsto> True)\<rparr>;
          c = Log c now ''info'' ''switch''
                (''Channel '' @ name @ '' switched to LOOP (manual override active)'')
      in (c, db))"

definition switch_to_obs ::
  "Controller \<Rightarrow> DB \<Rightarrow> int \<Rightarrow> string \<Rightarrow> int \<Rightarrow> Controller \<times> DB" where
  "switch_to_obs c db now name channelID =
     (let c = Log c now ''info'' ''api'' (''Manually switching channel '' @ name @ '' to OBS'');
          db = set_source_by_id db channelID ''OBS'';
          c = c\<lparr>activeSourceMap := (activeSourceMap c)(name \<mapsto> ''OBS''),
                manualLoopOverride := (manualLoopOverride c)(name := None)\<rparr>;
          c = Log c now ''info'' ''switch'' (''Channel '' @ name @ '' switched to OBS (manual)'')
      in (c, db))"

subsection \<open>TakeoverHandler\<close>

fun digits :: "nat \<Rightarrow> string" where
  "digits n = (if n < 10 then [char_of (48 + n)] else digits (n div 10) @ [char_of (48 + n mod 10)])"

definition Itoa :: "int \<Rightarrow> string" where
  "Itoa i = (if i < 0 then ''-'' @ digits (nat (- i)) else digits (nat i))"

definition TakeoverHandler ::
  "Controller \<Rightarrow> DB \<Rightarrow> int \<Rightarrow> string \<Rightarrow> string \<Rightarrow> string
     \<Rightarrow> Controller \<times> DB \<times> effect list \<times> http_response" where
  "TakeoverHandler c db now method path remoteAddr =
     (if method = ''OPTIONS'' then (c, db, [], \<lparr>StatusCode = 200, Written = Text ''''\<rparr>)
      else if method \<noteq> ''POST'' then (c, db, [], http_Error ''Method not allowed'' 405)
      else
        let channelName = TrimSuffix (TrimPrefix path ''/api/takeover/'') ''/''
        in if channelName = '''' then (c, db, [], http_Error ''Channel name required'' 400)
           else
             (case find (\<lambda>r. row_name r = channelName \<and> row_enabled r) (channels db) of
                None \<Rightarrow> (c, db, [], http_Error ''Channel not found or disabled'' 404)
              | Some ch \<Rightarrow>
                  let containerName = ''loop-'' @ channelName;
                      c = Log c now ''info'' ''api''
                            (''OBS takeover requested for '' @ channelName
                               @ '' - stopping loop container'');
                      stopped = EnsureContainerStopped containerName;
                      c = c\<lparr>takeoverCooldown := (takeoverCooldown c)(channelName \<mapsto> now)\<rparr>;
                      db = UpdateActiveSource db (row_id ch) ''OBS'';
                      db = insert_audit db
                             \<lparr>audit_action = ''OBS_TAKEOVER'',
                              audit_resource_type = ''channel'',
                              audit_resource_id = channelName,
                              audit_details =
                                ''{'' @ [CHR 0x22] @ ''action'' @ [CHR 0x22] @ '': '' @ [CHR 0x22]
                                  @ ''loop_stopped'' @ [CHR 0x22] @ ''}'',
                              audit_ip_address = remoteAddr\<rparr>;
                      timeout = (if failover_timeout_seconds ch \<le> 0 then 60
                                 else failover_timeout_seconds ch)
                  in (c, db, stopped,
                      \<lparr>StatusCode = 200,
                       Written = Json
                         [(''status'', ''success''),
                          (''message'', ''Loop stopped for channel '' @ channelName
                             @ '' - OBS can now connect ('' @ Itoa timeout @ ''s window)''),
                          (''rtmp_url'', ''rtmp://localhost:1935/live/'' @ channelName)]\<rparr>)))"

section \<open>The relay manager\<close>

subsection \<open>State\<close>

text \<open>
  The relay's package variables form its state. A \<^verbatim>\<open>*exec.Cmd\<close> is modelled by the
  two fields the relay inspects: \<open>Process\<close> (the pid, set once \<^verbatim>\<open>Start\<close> has
  succeeded) and \<open>ProcessState\<close> (the exit status, set once \<^verbatim>\<open>Wait\<close> has returned).
  The map \<^verbatim>\<open>distributors\<close> is an association list with distinct keys, because the
  relay iterates over it; Go leaves the iteration order open, the model uses the list
  order. \<open>CfgDestinations\<close> is the field \<^verbatim>\<open>Destinations\<close> of the relay's
  \<^verbatim>\<open>Config\<close>.
\<close>

record Config =
  SourceURL :: string
  CfgDestinations :: "string list"
  VideoBitrate :: int
  AudioBitrate :: int
  KeyframeInterval :: int

record Cmd =
  Process :: "nat option"
  ProcessState :: "int option"

record Relay =
  currentConfig :: Config
  currentMode :: string
  loopCmd :: "Cmd option"
  obsCmd :: "Cmd option"
  transcoderCmd :: "Cmd option"
  distributors :: "(string \<times> Cmd option) list"
  failureCounts :: "string \<rightharpoonup> int"

definition loopStream :: string where
  "loopStream = ''rtmp://srs:1935/live/waheguru''"


text \<open>
  What the relay does to the outside: signals to process groups, sleeps, child
  processes launched, goroutines started. Durations are nanoseconds.
\<close>

datatype relay_effect =
    Kill int string
  | Sleep int
  | Start_ffmpeg string
  | Go_OBSPump string
  | Go_TranscoderWait
  | Go_startDistributor string

subsection \<open>Mode and pumps\<close>

definition switchMode :: "Relay \<Rightarrow> string \<Rightarrow> Relay" where
  "switchMode s mode = s\<lparr>currentMode := mode\<rparr>"



text \<open>
  \<^verbatim>\<open>triggerFailover\<close>: the relay's own fallback to the loop when the active pump is
  lost.
\<close>

definition triggerFailover :: "Relay \<Rightarrow> Relay" where
  "triggerFailover s =
     (if currentMode s = ''LOOP'' then s
      else (switchMode s ''LOOP'')\<lparr>currentConfig := (currentConfig s)\<lparr>SourceURL := loopStream\<rparr>\<rparr>)"

subsection \<open>Transcoder\<close>


subsection \<open>Distributors\<close>

definition failCount :: "Relay \<Rightarrow> string \<Rightarrow> int" where
  "failCount s destURL = (case failureCounts s destURL of None \<Rightarrow> 0 | Some n \<Rightarrow> n)"

text \<open>
  \<^verbatim>\<open>manageDistributors\<close>, first loop: every distributor whose URL is not in the new
  set is signalled (when it has a process) and its entries are deleted.
\<close>

fun stopRemoved :: "string list \<Rightarrow> (string \<times> Cmd option) list \<Rightarrow> relay_effect list" where
  "stopRemoved destinations [] = []"
| "stopRemoved destinations ((url, cmd) # rest) =
     (if url \<notin> set destinations
      then (case cmd of
              Some c \<Rightarrow>
                (case Process c of
                   Some pid \<Rightarrow> [Kill (- int pid) ''SIGTERM'']
                 | None \<Rightarrow> [])
            | None \<Rightarrow> [])
      else [])
     @ stopRemoved destinations rest"

definition deleteRemoved :: "string list \<Rightarrow> Relay \<Rightarrow> Relay" where
  "deleteRemoved destinations s =
     s\<lparr>distributors := filter (\<lambda>(url, cmd). url \<in> set destinations) (distributors s),
       failureCounts :=
         (\<lambda>url. if url \<in> fst ` set (distributors s) \<and> url \<notin> set destinations then None
                else failureCounts s url)\<rparr>"

text \<open>Second loop: a distributor is started for every URL that has none.\<close>

fun startMissing :: "string list \<Rightarrow> Relay \<Rightarrow> Relay \<times> relay_effect list" where
  "startMissing [] s = (s, [])"
| "startMissing (url # rest) s =
     (if url \<in> fst ` set (distributors s) then startMissing rest s
      else
        let (s', started) = startMissing rest (s\<lparr>distributors := distributors s @ [(url, None)]\<rparr>)
        in (s', Go_startDistributor url # started))"

definition manageDistributors :: "Relay \<Rightarrow> string list \<Rightarrow> Relay \<times> relay_effect list" where
  "manageDistributors s destinations =
     (let stopped = stopRemoved destinations (distributors s);
          (s', started) = startMissing destinations (deleteRemoved destinations s)
      in (s', stopped @ started))"




definition mark_exited ::
  "(string \<times> Cmd option) list \<Rightarrow> nat \<Rightarrow> int \<Rightarrow> (string \<times> Cmd option) list" where
  "mark_exited ds pid status =
     map (\<lambda>(url, cmd).
            (url, case cmd of
                    None \<Rightarrow> None
                  | Some c \<Rightarrow>
                      if Process c = Some pid \<and> ProcessState c = None
                      then Some (c\<lparr>ProcessState := Some status\<rparr>) else Some c)) ds"

definition distributorExit ::
  "Relay \<Rightarrow> string \<Rightarrow> nat \<Rightarrow> int \<Rightarrow> int \<Rightarrow> Relay \<times> relay_effect list" where
  "distributorExit s destURL pid status elapsed =
     (let s = s\<lparr>distributors := mark_exited (distributors s) pid status\<rparr>;
          s = (if elapsed > 60 * Second
               then s\<lparr>failureCounts := (failureCounts s)(destURL \<mapsto> 0)\<rparr>
               else s\<lparr>failureCounts :=
                        (failureCounts s)(destURL \<mapsto> wrap64 (failCount s destURL + 1))\<rparr>);
          needed = (destURL \<in> set (CfgDestinations (currentConfig s)))
      in if needed then (s, [Go_startDistributor destURL])
         else (s\<lparr>distributors := filter (\<lambda>(url, cmd). url \<noteq> destURL) (distributors s)\<rparr>, []))"



subsection \<open>Configuration updates and status\<close>





text \<open>
  \<^verbatim>\<open>handleStatus\<close> builds the list of destinations by ranging over the map, in an
  order Go does not fix: the answer is modelled with the set of its \<open>(url, running)\<close>
  pairs.
\<close>

record status =
  status_source :: string
  status_mode :: string
  status_destinations :: "(string \<times> bool) set"
  status_transcoder_running :: bool



section \<open>Runs and sample data\<close>

text \<open>
  \<open>healthUpdates window calls\<close> is the controller after the given calls of
  \<^verbatim>\<open>UpdateHealthHistory\<close>, starting from \<^verbatim>\<open>NewController\<close>.
\<close>

definition healthUpdates :: "int \<Rightarrow> (string \<times> bool) list \<Rightarrow> Controller" where
  "healthUpdates window calls =
     foldl (\<lambda>c (key, healthy). UpdateHealthHistory c key healthy) (NewController window) calls"

text \<open>Projections of an effect list.\<close>

fun storeUpdates :: "effect list \<Rightarrow> (int \<times> string) list" where
  "storeUpdates [] = []"
| "storeUpdates (Go_UpdateActiveSource channelID source # es) =
     (channelID, source) # storeUpdates es"
| "storeUpdates (e # es) = storeUpdates es"

fun loopStarts :: "effect list \<Rightarrow> string list" where
  "loopStarts [] = []"
| "loopStarts (Call_EnsureContainerRunning ch containerName # es) =
     containerName # loopStarts es"
| "loopStarts (e # es) = loopStarts es"

text \<open>
  A channel \<open>alpha\<close> with one destination, the stream map of a tick in which its
  primary publishes at 2500 kbps next to the loop, the empty stream map, and a fresh
  controller with window 3.
\<close>

definition alpha_destination :: Destination where
  "alpha_destination =
     \<lparr>DestID = 1, DestName = ''main'', DestRTMPURL = ''rtmp://dst/live/key'',
      DestEnabled = True, DestStatus = ''CONNECTED''\<rparr>"

definition alpha :: Channel where
  "alpha =
     \<lparr>ID = 7, Name = ''alpha'', OBSToken = ''obs-secret'', LoopToken = ''loop-secret'',
      LoopEnabled = True, Enabled = True, ActiveSource = ''LOOP'', OBSOverrideEnabled = True,
      FailoverTimeout = 10, Destinations = [alpha_destination], ObsSourceStream = ''''\<rparr>"

definition alpha_disabled :: Channel where
  "alpha_disabled = alpha\<lparr>Enabled := False\<rparr>"

definition live_stream :: SRSStream where
  "live_stream = \<lparr>PublishActive = True, KbpsRecv = 2500, VideoWidth = 1920\<rparr>"

definition primary_up_streams :: "string \<rightharpoonup> SRSStream" where
  "primary_up_streams = [''alpha'' \<mapsto> live_stream, ''alpha-obs'' \<mapsto> live_stream]"

definition no_streams :: "string \<rightharpoonup> SRSStream" where
  "no_streams = Map.empty"

definition fresh :: Controller where
  "fresh = NewController 3"

definition alpha_row :: channel_row where
  "alpha_row =
     \<lparr>row_id = 7, row_name = ''alpha'', row_enabled = True, obs_token_hash = None,
      loop_token_hash = None, obs_token = ''obs-secret'', loop_token = ''loop-secret'',
      current_active_source = ''LOOP'', failover_timeout_seconds = 10\<rparr>"

definition alpha_db :: DB where
  "alpha_db = \<lparr>channels = [alpha_row], audit_logs = []\<rparr>"

text \<open>A stand-in for the library primitives, to evaluate the model on sample data.\<close>

definition sample_lib :: crypto_lib where
  "sample_lib =
     \<lparr>sha256_digest = (\<lambda>msg. length msg),
      keystream = (\<lambda>key nonce i. char_of (i + length key)),
      ghash_tag = (\<lambda>key nonce c. length c)\<rparr>"

definition sample_key :: string where
  "sample_key = ''0123456789abcdef0123456789abcdef''"

text \<open>Controllers with a manual override, and with a takeover cooldown installed at time 0.\<close>

definition overridden :: Controller where
  "overridden = fresh\<lparr>activeSourceMap := [''alpha'' \<mapsto> ''LOOP''],
                      manualLoopOverride := [''alpha'' \<mapsto> True]\<rparr>"

definition cooling :: Controller where
  "cooling = fresh\<lparr>takeoverCooldown := [''alpha'' \<mapsto> 0]\<rparr>"

text \<open>
  Publish hooks for \<open>alpha\<close>: the primary on \<open>alpha-obs\<close> with the OBS token, and
  the loop publisher on \<open>alpha\<close> with the loop token.
\<close>

definition quoted :: "string \<Rightarrow> string" where
  "quoted s = [CHR 0x22] @ s @ [CHR 0x22]"

definition hook_body :: "hook_payload \<Rightarrow> string" where
  "hook_body p =
     ''{'' @ quoted ''action'' @ '':'' @ quoted (Action p) @ '','' @ quoted ''stream'' @ '':''
       @ quoted (Stream p) @ '','' @ quoted ''param'' @ '':'' @ quoted (Param p) @ '',''
       @ quoted ''ip'' @ '':'' @ quoted (IP p) @ ''}''"

definition obs_payload :: hook_payload where
  "obs_payload =
     \<lparr>Action = ''on_publish'', Stream = ''alpha-obs'', Param = ''?token=obs-secret'',
      IP = ''10.0.0.9''\<rparr>"

definition loop_payload :: hook_payload where
  "loop_payload =
     \<lparr>Action = ''on_publish'', Stream = ''alpha'', Param = ''?token=loop-secret'',
      IP = ''10.0.0.2''\<rparr>"

definition obs_publish :: hook_request where
  "obs_publish = \<lparr>Body = hook_body obs_payload, Payload = Some obs_payload\<rparr>"

definition loop_publish :: hook_request where
  "loop_publish = \<lparr>Body = hook_body loop_payload, Payload = Some loop_payload\<rparr>"





section \<open>Proofs\<close>

subsection \<open>Hex coding and the cipher\<close>


lemma hextable_all: "list_all (\<lambda>k. fromHexChar (hextable ! k) = Some k) [0..<16]"
  by code_simp

lemma hextable_nth:
  "k < 16 \<Longrightarrow> fromHexChar (hextable ! k) = Some k"
  using hextable_all by (simp add: list_all_iff)

lemma of_char_lt_256: "(of_char c :: nat) < 256"
  by (cases c) (simp add: of_char_def horner_sum_eq_sum)

lemma char_of_div_mod: "char_of ((of_char v :: nat) div 16 * 16 + of_char v mod 16) = v"
  by simp

lemma decode_encode: "DecodeString (EncodeToString bs) = Inr bs"
  by (induction bs) (simp_all add: hextable_nth of_char_lt_256 less_mult_imp_div_less)

lemma length_Encode: "length (EncodeToString bs) = 2 * length bs"
  by (induction bs) simp_all

lemma length_be_bytes: "length (be_bytes len n) = len"
  by (simp add: be_bytes_def)

lemma xor_byte_cancel: "xor_byte (xor_byte a b) b = a"
proof -
  have "take_bit 8 ((of_char a :: nat) XOR of_char b) = of_char a XOR of_char b"
    by (simp add: take_bit_xor take_bit_nat_eq_self of_char_lt_256)
  then have "((of_char a :: nat) XOR of_char b) mod 256 = of_char a XOR of_char b"
    by (simp add: take_bit_eq_mod)
  then show ?thesis
    by (simp add: xor_byte_def xor.assoc)
qed

lemma ctr_xor_aux:
  "map (\<lambda>(i, b). xor_byte b (f i)) (enumerate n (map (\<lambda>(i, b). xor_byte b (f i)) (enumerate n xs))) = xs"
  by (induction xs arbitrary: n) (simp_all add: xor_byte_cancel)

lemma ctr_xor_cancel: "ctr_xor lib key nonce (ctr_xor lib key nonce xs) = xs"
  unfolding ctr_xor_def by (rule ctr_xor_aux)

lemma length_ctr_xor: "length (ctr_xor lib key nonce xs) = length xs"
  by (simp add: ctr_xor_def)

lemma Open_Seal: "length nonce = 12 \<Longrightarrow> Open lib key nonce (Seal lib key nonce p) = Inr p"
  by (simp add: Open_def Seal_def Let_def length_be_bytes length_ctr_xor ctr_xor_cancel)

lemma Decrypt_Encrypt:
  "Encrypt lib key rnd t = Inr (c, iv) \<Longrightarrow> Decrypt lib key c iv = Inr t"
  by (auto simp: Encrypt_def Decrypt_def Let_def decode_encode Open_Seal split: if_splits)

lemma length_HashToken: "length (HashToken lib t) = 64"
  by (simp add: HashToken_def length_Encode length_be_bytes)

lemma set_Encode: "set (EncodeToString bs) \<subseteq> set hextable"
proof (induction bs)
  case Nil
  then show ?case by simp
next
  case (Cons v bs)
  have len: "length hextable = 16" by (simp add: hextable_def)
  have "(of_char v :: nat) div 16 < 16"
    using of_char_lt_256 [of v] by (simp add: less_mult_imp_div_less)
  then have a: "hextable ! ((of_char v :: nat) div 16) \<in> set hextable"
    using len by (metis nth_mem)
  have b: "hextable ! ((of_char v :: nat) mod 16) \<in> set hextable"
    using len by (metis nth_mem mod_less_divisor zero_less_numeral)
  from a b Cons show ?case by simp
qed

text \<open>
  C8. For every token \<open>t\<close>: when the key has a valid AES size and the random source
  yields the 12 nonce bytes, \<open>Encrypt\<close> returns a pair (ciphertext, nonce) and
  \<open>Decrypt\<close> of that pair under the same key returns \<open>t\<close> exactly; \<open>HashToken\<close> depends
  on its input alone and always returns 64 hexadecimal characters.
\<close>

theorem credential_roundtrip:
  assumes "valid_key_size key" and "12 \<le> length rnd"
  shows "(case Encrypt lib key rnd t of
            Inl e \<Rightarrow> False
          | Inr (c, iv) \<Rightarrow> Decrypt lib key c iv = Inr t)
         \<and> length (HashToken lib t) = 64
         \<and> set (HashToken lib t) \<subseteq> set hextable
         \<and> (t = t' \<longrightarrow> HashToken lib t = HashToken lib t')"
proof -
  obtain c iv where enc: "Encrypt lib key rnd t = Inr (c, iv)"
    using assms by (simp add: Encrypt_def Let_def)
  then have "Decrypt lib key c iv = Inr t"
    by (rule Decrypt_Encrypt)
  moreover have "set (HashToken lib t) \<subseteq> set hextable"
    unfolding HashToken_def by (rule set_Encode)
  ultimately show ?thesis
    using enc by (simp add: length_HashToken)
qed

theorem credential_roundtrip_witness:
  "valid_key_size sample_key \<and> 12 \<le> length ''nonce-bytes-0'' \<and>
   (case Encrypt sample_lib sample_key ''nonce-bytes-0'' ''loop-secret'' of
      Inl e \<Rightarrow> False
    | Inr (c, iv) \<Rightarrow> Decrypt sample_lib sample_key c iv = Inr ''loop-secret'')
   \<and> length (HashToken sample_lib ''loop-secret'') = 64"
  using credential_roundtrip [of sample_key "''nonce-bytes-0''" sample_lib "''loop-secret''"]
  by (simp add: valid_key_size_def sample_key_def)

subsection \<open>Health history\<close>

lemma StabilityWindow_UpdateHealthHistory [simp]:
  "StabilityWindow (UpdateHealthHistory c key healthy) = StabilityWindow c"
  by (simp add: UpdateHealthHistory_def Let_def)

lemma StabilityWindow_healthUpdates [simp]:
  "StabilityWindow (healthUpdates window calls) = window"
  unfolding healthUpdates_def
  by (induction calls rule: rev_induct) (simp_all add: NewController_def split: prod.splits)

lemma history_of_update_same:
  "history_of (UpdateHealthHistory c key healthy) key =
     (if int (length (history_of c key)) + 1 > StabilityWindow c
      then tl (history_of c key @ [healthy]) else history_of c key @ [healthy])"
  by (simp add: UpdateHealthHistory_def history_of_def Let_def)

lemma history_of_update_other:
  "k \<noteq> key \<Longrightarrow> history_of (UpdateHealthHistory c key healthy) k = history_of c k"
  by (simp add: UpdateHealthHistory_def history_of_def Let_def)

lemma update_keeps_bound:
  assumes "0 \<le> StabilityWindow c"
    and "int (length (history_of c k)) \<le> StabilityWindow c"
  shows "int (length (history_of (UpdateHealthHistory c key healthy) k)) \<le> StabilityWindow c"
proof (cases "k = key")
  case True
  with assms show ?thesis by (simp add: history_of_update_same)
next
  case False
  with assms show ?thesis by (simp add: history_of_update_other)
qed

lemma healthUpdates_bounded:
  assumes "0 \<le> window"
  shows "int (length (history_of (healthUpdates window calls) k)) \<le> window"
proof (induction calls rule: rev_induct)
  case Nil
  with assms show ?case
    by (simp add: healthUpdates_def NewController_def history_of_def)
next
  case (snoc call calls)
  obtain key healthy where call: "call = (key, healthy)" by (cases call)
  have step: "healthUpdates window (calls @ [call]) =
      UpdateHealthHistory (healthUpdates window calls) key healthy"
    by (simp add: healthUpdates_def call)
  show ?case
    unfolding step
    using update_keeps_bound [of "healthUpdates window calls" k key healthy] assms snoc
    by simp
qed

text \<open>
  C7. With a stability window that is not negative (the data model requires at least 1),
  in every controller reached from the initial one by calls of \<open>UpdateHealthHistory\<close>,
  each buffer is at most \<open>window\<close> long, before and after a further call; the call
  puts the new boolean at the end of the buffer of its key and then drops the oldest
  entry exactly when the buffer was full, and leaves the buffers of all other keys as
  they were. With a window of at least 1 the new boolean is always the last entry.
\<close>

theorem health_history_bounded_fifo:
  assumes "0 \<le> window"
  shows "let c = healthUpdates window calls;
             h = history_of c key;
             c' = UpdateHealthHistory c key healthy
         in int (length (history_of c k)) \<le> window
          \<and> int (length (history_of c' k)) \<le> window
          \<and> history_of c' key =
              (if int (length h) < window then h @ [healthy] else tl (h @ [healthy]))
          \<and> (if 1 \<le> window
              then history_of c' key =
                     (if int (length h) < window then h @ [healthy] else tl h @ [healthy])
              else history_of c' key = [])
          \<and> HealthHistory c' = (HealthHistory c)(key \<mapsto> history_of c' key)"
proof -
  let ?c = "healthUpdates window calls"
  let ?h = "history_of ?c key"
  have b: "int (length (history_of ?c k)) \<le> window"
    by (rule healthUpdates_bounded [OF assms])
  have bk: "int (length ?h) \<le> window"
    by (rule healthUpdates_bounded [OF assms])
  have b': "int (length (history_of (UpdateHealthHistory ?c key healthy) k)) \<le> window"
    using update_keeps_bound [of ?c k key healthy] b assms by simp
  have fifo: "history_of (UpdateHealthHistory ?c key healthy) key =
      (if int (length ?h) < window then ?h @ [healthy] else tl (?h @ [healthy]))"
    using bk by (auto simp: history_of_update_same)
  have last: "tl (?h @ [healthy]) = tl ?h @ [healthy]" if "1 \<le> window" "\<not> int (length ?h) < window"
    using that by (cases ?h) auto
  have empty: "?h = []" if "\<not> 1 \<le> window"
  proof -
    from that bk have "int (length ?h) < 1" by linarith
    then have "length ?h = 0" by linarith
    then show ?thesis by simp
  qed
  have frame: "HealthHistory (UpdateHealthHistory ?c key healthy) =
      (HealthHistory ?c)(key \<mapsto> history_of (UpdateHealthHistory ?c key healthy) key)"
    by (simp add: UpdateHealthHistory_def history_of_def Let_def)
  have nice: "if 1 \<le> window
      then history_of (UpdateHealthHistory ?c key healthy) key =
             (if int (length ?h) < window then ?h @ [healthy] else tl ?h @ [healthy])
      else history_of (UpdateHealthHistory ?c key healthy) key = []"
  proof (cases "1 \<le> window")
    case True
    then show ?thesis using fifo last by auto
  next
    case False
    then show ?thesis using fifo empty [OF False] assms by auto
  qed
  from b b' fifo nice frame show ?thesis by (simp add: Let_def)
qed

theorem health_history_bounded_fifo_witness:
  "(0::int) \<le> 2 \<and>
   history_of (healthUpdates 2 [(''alpha_obs'', True), (''alpha_obs'', False)]) ''alpha_obs''
     = [True, False] \<and>
   history_of (UpdateHealthHistory
      (healthUpdates 2 [(''alpha_obs'', True), (''alpha_obs'', False)]) ''alpha_obs'' True)
     ''alpha_obs'' = [False, True]"
  using health_history_bounded_fifo
    [where window = 2 and calls = "[(''alpha_obs'', True), (''alpha_obs'', False)]"
       and key = "''alpha_obs''" and k = "''alpha_obs''" and healthy = True]
  by (simp add: healthUpdates_def NewController_def UpdateHealthHistory_def history_of_def
      Let_def)

subsection \<open>Effect projections\<close>

lemma storeUpdates_append: "storeUpdates (xs @ ys) = storeUpdates xs @ storeUpdates ys"
  by (induction xs rule: storeUpdates.induct) simp_all

lemma loopStarts_append: "loopStarts (xs @ ys) = loopStarts xs @ loopStarts ys"
  by (induction xs rule: loopStarts.induct) simp_all

lemma storeUpdates_status:
  "storeUpdates (map (\<lambda>dest. Call_UpdateDestinationStatus (f dest) s) ds) = []"
  by (induction ds) simp_all

lemma loopStarts_status:
  "loopStarts (map (\<lambda>dest. Call_UpdateDestinationStatus (f dest) s) ds) = []"
  by (induction ds) simp_all

lemma storeUpdates_ReconcileDestinations [simp]:
  "storeUpdates (ReconcileDestinations ch active) = []"
  by (simp add: ReconcileDestinations_def EnsureContainerStopped_def Let_def
      storeUpdates_append storeUpdates_status)

lemma loopStarts_ReconcileDestinations [simp]:
  "loopStarts (ReconcileDestinations ch active) = []"
  by (simp add: ReconcileDestinations_def EnsureContainerStopped_def Let_def
      loopStarts_append loopStarts_status)

subsection \<open>The phases of a tick\<close>

lemma UpdateHealthHistory_frame [simp]:
  "activeSourceMap (UpdateHealthHistory c key healthy) = activeSourceMap c"
  "manualLoopOverride (UpdateHealthHistory c key healthy) = manualLoopOverride c"
  "takeoverCooldown (UpdateHealthHistory c key healthy) = takeoverCooldown c"
  "LogBuffer (UpdateHealthHistory c key healthy) = LogBuffer c"
  "logID (UpdateHealthHistory c key healthy) = logID c"
  by (simp_all add: UpdateHealthHistory_def Let_def)

lemma Log_frame [simp]:
  "activeSourceMap (Log c now level component message) = activeSourceMap c"
  "manualLoopOverride (Log c now level component message) = manualLoopOverride c"
  "takeoverCooldown (Log c now level component message) = takeoverCooldown c"
  "HealthHistory (Log c now level component message) = HealthHistory c"
  "StabilityWindow (Log c now level component message) = StabilityWindow c"
  by (simp_all add: Log_def Let_def)

lemma syncFromDatabase_frame [simp]:
  "manualLoopOverride (fst (syncFromDatabase c ch)) = manualLoopOverride c"
  "takeoverCooldown (fst (syncFromDatabase c ch)) = takeoverCooldown c"
  "LogBuffer (fst (syncFromDatabase c ch)) = LogBuffer c"
  "logID (fst (syncFromDatabase c ch)) = logID c"
  by (simp_all add: syncFromDatabase_def Let_def)



lemma clearOverride_frame [simp]:
  "activeSourceMap (fst (clearOverride c ch r)) = activeSourceMap c"
  "takeoverCooldown (fst (clearOverride c ch r)) = takeoverCooldown c"
  "LogBuffer (fst (clearOverride c ch r)) = LogBuffer c"
  "logID (fst (clearOverride c ch r)) = logID c"
  by (simp_all add: clearOverride_def)


lemma clearOverride_map:
  "manualLoopOverride (fst (clearOverride c ch r)) =
     (if \<not> r \<and> hasManualLoopOverride c (Name ch)
      then (manualLoopOverride c)(Name ch := None) else manualLoopOverride c)"
  by (simp add: clearOverride_def)

lemma autoSwitch_frame [simp]:
  "manualLoopOverride (fst (autoSwitch c now ch r cur ov)) = manualLoopOverride c"
  "takeoverCooldown (fst (autoSwitch c now ch r cur ov)) = takeoverCooldown c"
  by (simp_all add: autoSwitch_def)

lemma superviseLoop_frame [simp]:
  "activeSourceMap (fst (superviseLoop c now ch streams)) = activeSourceMap c"
  "manualLoopOverride (fst (superviseLoop c now ch streams)) = manualLoopOverride c"
  "LogBuffer (fst (superviseLoop c now ch streams)) = LogBuffer c"
  "logID (fst (superviseLoop c now ch streams)) = logID c"
  by (simp_all add: superviseLoop_def Let_def split: option.splits)

lemma storeUpdates_superviseLoop [simp]:
  "storeUpdates (snd (superviseLoop c now ch streams)) = []"
  by (simp add: superviseLoop_def Let_def EnsureContainerStopped_def storeUpdates_append
      split: option.splits)

text \<open>The tick of an enabled channel, phase by phase.\<close>

lemma ReconcileChannel_enabled:
  assumes "Enabled ch"
  shows "ReconcileChannel c now ch streams =
    (let r = isObsRobust ch streams;
         c1 = UpdateHealthHistory
                (UpdateHealthHistory c (Name ch @ ''_loop'') (isLoopRobust ch streams))
                (Name ch @ ''_obs'') r;
         s = syncFromDatabase c1 ch;
         ov = clearOverride (fst s) ch r;
         a = autoSwitch (fst ov) now ch r (snd s) (snd ov);
         ch' = ch\<lparr>ObsSourceStream := snd (obsDetect ch streams),
                  ActiveSource := snd (snd a)\<rparr>;
         sv = superviseLoop (fst a) now ch' streams
     in (fst sv, fst (snd a) @ snd sv))"
  using assms by (simp add: ReconcileChannel_def Let_def split: prod.splits)

lemma ReconcileChannel_disabled:
  assumes "\<not> Enabled ch"
  shows "ReconcileChannel c now ch streams =
    (c, ContainerRemove (''loop-'' @ Name ch) # ReconcileDestinations ch False)"
  using assms by (simp add: ReconcileChannel_def EnsureContainerStopped_def)

subsection \<open>Durations\<close>

lemma wrap64_range: "- (2 ^ 63) \<le> wrap64 x \<and> wrap64 x < 2 ^ 63"
proof -
  have "0 \<le> (x + 2 ^ 63) mod 2 ^ 64" by simp
  moreover have "(x + 2 ^ 63) mod 2 ^ 64 < (2 ^ 64 :: int)" by simp
  ultimately show ?thesis unfolding wrap64_def by simp
qed

lemma wrap64_id: "- (2 ^ 63) \<le> x \<Longrightarrow> x < 2 ^ 63 \<Longrightarrow> wrap64 x = x"
  by (simp add: wrap64_def)

lemma failoverTimeout_range: "0 < failoverTimeout ch \<and> failoverTimeout ch < 2 ^ 63"
  using wrap64_range [of "FailoverTimeout ch * Second"]
  by (auto simp: failoverTimeout_def Let_def Second_def)

lemma Since_less: "Since now t < failoverTimeout ch \<longleftrightarrow> now - t < failoverTimeout ch"
  using failoverTimeout_range [of ch] by (auto simp: Since_def)

lemma failoverTimeout_seconds:
  assumes "1 \<le> FailoverTimeout ch" and "FailoverTimeout ch \<le> 9223372036"
  shows "failoverTimeout ch = FailoverTimeout ch * Second"
proof -
  have "wrap64 (FailoverTimeout ch * Second) = FailoverTimeout ch * Second"
    using assms by (intro wrap64_id) (simp_all add: Second_def)
  with assms show ?thesis by (simp add: failoverTimeout_def Let_def Second_def)
qed

subsection \<open>The reconciler tick\<close>

lemma failoverTimeout_update [simp]:
  "failoverTimeout (ch\<lparr>ObsSourceStream := x, ActiveSource := y\<rparr>) = failoverTimeout ch"
  by (simp add: failoverTimeout_def)

lemma superviseLoop_cooling:
  assumes "takeoverCooldown c (Name ch) = Some t"
  shows "superviseLoop c now ch streams =
     (if now - t < failoverTimeout ch
      then (c, ContainerRemove (''loop-'' @ Name ch)
               # ReconcileDestinations ch (obsAlive ch streams \<or> loopAlive ch streams))
      else (c\<lparr>takeoverCooldown := (takeoverCooldown c)(Name ch := None)\<rparr>,
            (if LoopEnabled ch then Call_EnsureContainerRunning ch (''loop-'' @ Name ch)
             else ContainerRemove (''loop-'' @ Name ch))
            # ReconcileDestinations ch
                (obsAlive ch streams \<or> loopAlive ch streams \<or> LoopEnabled ch)))"
  using assms
  by (simp add: superviseLoop_def Let_def Since_less EnsureContainerStopped_def)



text \<open>
  C4, as amended. In a tick of an enabled channel the manual override of the channel is
  deleted if and only if it was set and the primary is not up in this sample: with the
  primary down the entry is removed, with the primary up the map of overrides is left as
  it was, and the overrides of other channels are never touched. A tick of a disabled
  channel returns before the override is read and leaves the map as it was.
\<close>

theorem override_cleared_iff_primary_down:
  "let (c', effects) = ReconcileChannel c now ch streams
   in if Enabled ch
      then manualLoopOverride c' =
             (if \<not> isObsRobust ch streams \<and> hasManualLoopOverride c (Name ch)
              then (manualLoopOverride c)(Name ch := None) else manualLoopOverride c)
         \<and> hasManualLoopOverride c' (Name ch) =
             (hasManualLoopOverride c (Name ch) \<and> isObsRobust ch streams)
      else manualLoopOverride c' = manualLoopOverride c"
proof (cases "Enabled ch")
  case True
  then show ?thesis
    by (auto simp: ReconcileChannel_enabled [OF True] Let_def clearOverride_map
        hasManualLoopOverride_def)
next
  case False
  then show ?thesis
    by (simp add: ReconcileChannel_disabled)
qed

theorem override_cleared_iff_primary_down_witness:
  "Enabled alpha \<and> hasManualLoopOverride overridden ''alpha'' \<and>
   \<not> isObsRobust alpha no_streams \<and> isObsRobust alpha primary_up_streams \<and>
   \<not> hasManualLoopOverride (fst (ReconcileChannel overridden 5 alpha no_streams)) ''alpha'' \<and>
   hasManualLoopOverride (fst (ReconcileChannel overridden 5 alpha primary_up_streams)) ''alpha''"
  using override_cleared_iff_primary_down [of overridden 5 alpha no_streams]
    override_cleared_iff_primary_down [of overridden 5 alpha primary_up_streams]
  by (simp add: case_prod_unfold Let_def alpha_def overridden_def fresh_def NewController_def
      primary_up_streams_def no_streams_def live_stream_def isObsRobust_def obsDetect_def
      hasManualLoopOverride_def)

theorem override_kept_when_disabled:
  "\<not> isObsRobust alpha_disabled no_streams \<and>
   hasManualLoopOverride overridden ''alpha'' \<and>
   hasManualLoopOverride (fst (ReconcileChannel overridden 5 alpha_disabled no_streams)) ''alpha''"
  by (simp add: ReconcileChannel_def alpha_disabled_def alpha_def overridden_def fresh_def
      NewController_def no_streams_def isObsRobust_def obsDetect_def hasManualLoopOverride_def)

text \<open>
  C3, as amended. Let a cooldown timestamp \<open>t\<close> be installed for the channel. In a tick
  of an enabled channel with \<open>now - t\<close> below the failover timeout (the channel's
  \<open>FailoverTimeout\<close> in seconds, 60 s when that is not positive), the cooldown entry
  stays, the loop container is removed and no loop container is started. In a tick with
  \<open>now - t\<close> at or above the timeout the entry is deleted and loop supervision runs:
  the loop container is started when the loop is enabled and removed when it is not. A
  tick of a disabled channel removes the loop container, starts none and leaves the
  cooldown entry in place, whatever the time.
\<close>

theorem takeover_cooldown_guard:
  assumes "takeoverCooldown c (Name ch) = Some t"
  shows "let (c', effects) = ReconcileChannel c now ch streams;
             loop = ''loop-'' @ Name ch
         in (if Enabled ch
             then if now - t < failoverTimeout ch
                  then takeoverCooldown c' = takeoverCooldown c
                     \<and> ContainerRemove loop \<in> set effects
                     \<and> loopStarts effects = []
                  else takeoverCooldown c' = (takeoverCooldown c)(Name ch := None)
                     \<and> loopStarts effects = (if LoopEnabled ch then [loop] else [])
                     \<and> (LoopEnabled ch \<or> ContainerRemove loop \<in> set effects)
             else takeoverCooldown c' = takeoverCooldown c
                \<and> ContainerRemove loop \<in> set effects
                \<and> loopStarts effects = [])
          \<and> (if 1 \<le> FailoverTimeout ch \<and> FailoverTimeout ch \<le> 9223372036
              then failoverTimeout ch = FailoverTimeout ch * Second
              else 0 < failoverTimeout ch)"
proof -
  have timeout: "if 1 \<le> FailoverTimeout ch \<and> FailoverTimeout ch \<le> 9223372036
      then failoverTimeout ch = FailoverTimeout ch * Second else 0 < failoverTimeout ch"
    using failoverTimeout_seconds [of ch] failoverTimeout_range [of ch] by simp
  show ?thesis
  proof (cases "Enabled ch")
    case True
    define r where "r = isObsRobust ch streams"
    define s where "s = syncFromDatabase (UpdateHealthHistory
                  (UpdateHealthHistory c (Name ch @ ''_loop'') (isLoopRobust ch streams))
                  (Name ch @ ''_obs'') r) ch"
    define ov where "ov = clearOverride (fst s) ch r"
    define a where "a = autoSwitch (fst ov) now ch r (snd s) (snd ov)"
    define ch' where "ch' = ch\<lparr>ObsSourceStream := snd (obsDetect ch streams),
                  ActiveSource := snd (snd a)\<rparr>"
    have tick: "ReconcileChannel c now ch streams =
        (fst (superviseLoop (fst a) now ch' streams),
         fst (snd a) @ snd (superviseLoop (fst a) now ch' streams))"
      by (simp add: ReconcileChannel_enabled [OF True] Let_def r_def s_def ov_def a_def ch'_def)
    have cd: "takeoverCooldown (fst a) = takeoverCooldown c"
      by (simp add: a_def ov_def s_def)
    have ls: "loopStarts (fst (snd a)) = []"
      by (simp add: a_def autoSwitch_def)
    have ch': "Name ch' = Name ch" "LoopEnabled ch' = LoopEnabled ch"
      "failoverTimeout ch' = failoverTimeout ch"
      by (simp_all add: ch'_def)
    have cd': "takeoverCooldown (fst a) (Name ch') = Some t"
      using assms cd ch' by simp
    show ?thesis
      using timeout True
      by (simp add: tick superviseLoop_cooling [OF cd'] ch' cd ls loopStarts_append Let_def)
  next
    case False
    then show ?thesis
      using timeout by (simp add: ReconcileChannel_disabled Let_def)
  qed
qed

theorem takeover_cooldown_guard_witness:
  "takeoverCooldown cooling (Name alpha) = Some 0 \<and>
   failoverTimeout alpha = 10 * Second \<and>
   takeoverCooldown (fst (ReconcileChannel cooling (3 * Second) alpha no_streams)) ''alpha''
     = Some 0 \<and>
   loopStarts (snd (ReconcileChannel cooling (3 * Second) alpha no_streams)) = [] \<and>
   takeoverCooldown (fst (ReconcileChannel cooling (10 * Second) alpha no_streams)) ''alpha''
     = None \<and>
   loopStarts (snd (ReconcileChannel cooling (10 * Second) alpha no_streams)) = [''loop-alpha'']"
  using takeover_cooldown_guard [of cooling alpha 0 "3 * Second" no_streams]
    takeover_cooldown_guard [of cooling alpha 0 "10 * Second" no_streams]
  by (simp add: case_prod_unfold Let_def alpha_def cooling_def fresh_def NewController_def
      Second_def failoverTimeout_def wrap64_def)

theorem cooldown_kept_when_disabled:
  "takeoverCooldown cooling ''alpha'' = Some 0 \<and>
   failoverTimeout alpha_disabled = 10 * Second \<and>
   takeoverCooldown
     (fst (ReconcileChannel cooling (100 * Second) alpha_disabled no_streams)) ''alpha''
     = Some 0"
  by (simp add: ReconcileChannel_def alpha_disabled_def alpha_def cooling_def fresh_def
      NewController_def failoverTimeout_def wrap64_def Second_def Let_def)

subsection \<open>Hooks\<close>

lemma Log_Log_frame:
  "LogBuffer (Log c now l k m) = (if length (LogBuffer c) \<ge> 1000 then tl (LogBuffer c) @ [\<lparr>LogID = logID c + 1, Timestamp = now, Level = l, Component = k, Message = m\<rparr>] else LogBuffer c @ [\<lparr>LogID = logID c + 1, Timestamp = now, Level = l, Component = k, Message = m\<rparr>])"
  by (cases "LogBuffer c") (auto simp: Log_def Let_def)

lemma authenticate_sample_loop:
  "authenticatePublish sample_lib alpha_db loop_payload = Accepted ''alpha'' ''LOOP''"
  by (simp add: authenticatePublish_def lookupChannel_def matchToken_def alpha_db_def
      alpha_row_def loop_payload_def TrimPrefix_def HasPrefix_def HasSuffix_def Let_def)

lemma authenticate_sample_obs:
  "authenticatePublish sample_lib alpha_db obs_payload = Accepted ''alpha'' ''OBS''"
  by (simp add: authenticatePublish_def lookupChannel_def matchToken_def alpha_db_def
      alpha_row_def obs_payload_def TrimPrefix_def HasPrefix_def HasSuffix_def TrimSuffix_def
      Let_def)

lemma matchToken_cases:
  "matchToken lib ch token = Some sourceType \<Longrightarrow> sourceType = ''OBS'' \<or> sourceType = ''LOOP''"
  by (auto simp: matchToken_def Let_def split: if_splits)

lemma Accepted_cases:
  "authenticatePublish lib db payload = Accepted streamName sourceType \<Longrightarrow>
   sourceType = ''OBS'' \<or> sourceType = ''LOOP''"
  by (auto simp: authenticatePublish_def Let_def dest: matchToken_cases
      split: option.splits if_splits prod.splits)

lemma OnPublishHandler_accepted_loop:
  assumes "Payload r = Some payload"
    and "authenticatePublish lib db payload = Accepted streamName ''LOOP''"
  shows "OnPublishHandler lib c db now r =
    (Log (Log c now ''info'' ''auth'' (''Raw Publish Body: '' @ Body r)) now ''info'' ''auth''
       (''Accepted LOOP publish for '' @ Stream payload @ '' from '' @ IP payload),
     insert_audit db
       \<lparr>audit_action = ''STREAM_PUBLISH'', audit_resource_type = ''channel'',
        audit_resource_id = Stream payload, audit_details = publish_details ''LOOP'',
        audit_ip_address = IP payload\<rparr>,
     [], accept_body)"
  using assms by (simp add: OnPublishHandler_def Let_def)

text \<open>
  C10, as amended. When the publish hook accepts a publish with source type \<open>LOOP\<close>, it
  leaves the cooldown map, \<open>activeSourceMap\<close>, the manual overrides, the health
  histories and the channel rows of the store (so the persisted active source) as they
  were and starts no container stop; it appends one \<open>STREAM_PUBLISH\<close> row to the audit
  log, appends two entries to the in-memory log buffer (the raw body and the acceptance)
  and answers \<open>0\<close>. When it accepts with source type \<open>OBS\<close>, it installs the cooldown
  for the stream, writes \<open>OBS\<close> to the store and stops the loop container
  asynchronously; no other source type is ever accepted.
\<close>

theorem loop_publish_frame:
  assumes "Payload r = Some payload"
    and "authenticatePublish lib db payload = Accepted streamName sourceType"
  shows "let (c', db', stopped, response) = OnPublishHandler lib c db now r
         in response = accept_body
          \<and> audit_logs db' = audit_logs db @
               [\<lparr>audit_action = ''STREAM_PUBLISH'', audit_resource_type = ''channel'',
                 audit_resource_id = Stream payload,
                 audit_details = publish_details sourceType,
                 audit_ip_address = IP payload\<rparr>]
          \<and> activeSourceMap c' = activeSourceMap c
          \<and> manualLoopOverride c' = manualLoopOverride c
          \<and> HealthHistory c' = HealthHistory c
          \<and> (if sourceType = ''LOOP''
              then takeoverCooldown c' = takeoverCooldown c
                 \<and> channels db' = channels db
                 \<and> stopped = []
                 \<and> c' = Log (Log c now ''info'' ''auth'' (''Raw Publish Body: '' @ Body r))
                          now ''info'' ''auth''
                          (''Accepted LOOP publish for '' @ Stream payload @ '' from ''
                             @ IP payload)
              else sourceType = ''OBS''
                 \<and> takeoverCooldown c' = (takeoverCooldown c)(streamName \<mapsto> now)
                 \<and> channels db' = channels (set_source_by_name db streamName ''OBS'')
                 \<and> stopped = [Go_EnsureContainerStopped (''loop-'' @ streamName)])"
proof (cases "sourceType = ''LOOP''")
  case True
  with assms show ?thesis
    by (simp add: OnPublishHandler_def Let_def insert_audit_def)
next
  case False
  with Accepted_cases [OF assms(2)] have obs: "sourceType = ''OBS''" by simp
  with assms show ?thesis
    by (simp add: OnPublishHandler_def Let_def insert_audit_def set_source_by_name_def)
qed

theorem loop_publish_frame_witness:
  "Payload loop_publish = Some loop_payload \<and>
   authenticatePublish sample_lib alpha_db loop_payload = Accepted ''alpha'' ''LOOP'' \<and>
   takeoverCooldown (fst (OnPublishHandler sample_lib cooling alpha_db 9 loop_publish))
     = takeoverCooldown cooling \<and>
   channels (fst (snd (OnPublishHandler sample_lib cooling alpha_db 9 loop_publish)))
     = [alpha_row] \<and>
   map audit_action
     (audit_logs (fst (snd (OnPublishHandler sample_lib cooling alpha_db 9 loop_publish))))
     = [''STREAM_PUBLISH'']"
  using loop_publish_frame [of loop_publish loop_payload sample_lib alpha_db "''alpha''"
      "''LOOP''" cooling 9] authenticate_sample_loop
  by (simp add: case_prod_unfold Let_def loop_publish_def alpha_db_def)

theorem loop_publish_writes_log:
  "authenticatePublish sample_lib alpha_db loop_payload = Accepted ''alpha'' ''LOOP'' \<and>
   LogBuffer fresh = [] \<and> logID fresh = 0 \<and>
   map Message (LogBuffer (fst (OnPublishHandler sample_lib fresh alpha_db 9 loop_publish)))
     = [''Raw Publish Body: '' @ hook_body loop_payload,
        ''Accepted LOOP publish for alpha from 10.0.0.2''] \<and>
   logID (fst (OnPublishHandler sample_lib fresh alpha_db 9 loop_publish)) = 2"
proof -
  have p: "Payload loop_publish = Some loop_payload" "Body loop_publish = hook_body loop_payload"
    by (simp_all add: loop_publish_def)
  have q: "Stream loop_payload = ''alpha''" "IP loop_payload = ''10.0.0.2''"
    by (simp_all add: loop_payload_def)
  show ?thesis
    by (simp add: OnPublishHandler_accepted_loop [OF p(1) authenticate_sample_loop] p(2) q
        authenticate_sample_loop Log_def Let_def fresh_def NewController_def)
qed

text \<open>
  C2. The invariant fails on the code. The operator switches \<open>alpha\<close> to the loop, which
  sets the manual override; the primary then publishes and the publish hook writes
  \<open>OBS\<close> as the persisted source without touching the override; the next tick, with
  the primary up, copies the persisted source into \<open>activeSourceMap\<close> at lines 354--360
  and keeps the override, since that is only cleared when the primary is down. The
  override is set and the source is \<open>OBS\<close>.
\<close>

theorem manual_override_bypassed_by_store_sync:
  "(let (c1, db1) = switch_to_loop fresh alpha_db 1 ''alpha'' 7;
        (c2, db2, stopped, response) = OnPublishHandler sample_lib c1 db1 2 obs_publish;
        ch = alpha\<lparr>ActiveSource := current_active_source (hd (channels db2))\<rparr>;
        (c3, effects) = ReconcileChannel c2 3 ch primary_up_streams
    in hasManualLoopOverride c1 ''alpha''
     \<and> activeSourceMap c1 ''alpha'' = Some ''LOOP''
     \<and> map current_active_source (channels db1) = [''LOOP'']
     \<and> response = accept_body
     \<and> hasManualLoopOverride c2 ''alpha''
     \<and> map current_active_source (channels db2) = [''OBS'']
     \<and> isObsRobust ch primary_up_streams
     \<and> hasManualLoopOverride c3 ''alpha''
     \<and> activeSourceMap c3 ''alpha'' = Some ''OBS'')"
proof -
  obtain c1 db1 where s1: "switch_to_loop fresh alpha_db 1 ''alpha'' 7 = (c1, db1)"
    by (cases "switch_to_loop fresh alpha_db 1 ''alpha'' 7")
  have c1: "manualLoopOverride c1 = [''alpha'' \<mapsto> True]"
    "activeSourceMap c1 = [''alpha'' \<mapsto> ''LOOP'']"
    "takeoverCooldown c1 = Map.empty"
    using s1 by (auto simp: switch_to_loop_def Let_def fresh_def NewController_def)
  have db1: "db1 = alpha_db"
    using s1 by (auto simp: switch_to_loop_def Let_def set_source_by_id_def alpha_db_def
        alpha_row_def)
  obtain c2 db2 stopped response where
    s2: "OnPublishHandler sample_lib c1 db1 2 obs_publish = (c2, db2, stopped, response)"
    by (cases "OnPublishHandler sample_lib c1 db1 2 obs_publish") auto
  have c2: "manualLoopOverride c2 = [''alpha'' \<mapsto> True]"
    "activeSourceMap c2 = [''alpha'' \<mapsto> ''LOOP'']"
    and db2: "map current_active_source (channels db2) = [''OBS'']"
    and resp: "response = accept_body"
    using s2 c1 authenticate_sample_obs
    by (auto simp: OnPublishHandler_def Let_def db1 obs_publish_def set_source_by_name_def
        insert_audit_def alpha_db_def alpha_row_def)
  define ch where "ch = alpha\<lparr>ActiveSource := current_active_source (hd (channels db2))\<rparr>"
  have ch: "ch = alpha\<lparr>ActiveSource := ''OBS''\<rparr>"
    using db2 by (cases "channels db2") (auto simp: ch_def)
  have en: "Enabled ch" by (simp add: ch alpha_def)
  have robust: "isObsRobust ch primary_up_streams"
    by (simp add: ch alpha_def isObsRobust_def obsDetect_def primary_up_streams_def
        live_stream_def)
  obtain c3 effects where s3: "ReconcileChannel c2 3 ch primary_up_streams = (c3, effects)"
    by (cases "ReconcileChannel c2 3 ch primary_up_streams")
  have c3: "c3 = fst (ReconcileChannel c2 3 ch primary_up_streams)"
    using s3 by simp
  have chf: "Name ch = ''alpha''" "ActiveSource ch = ''OBS''"
    by (simp_all add: ch alpha_def)
  have ov3: "manualLoopOverride c3 = [''alpha'' \<mapsto> True]"
    unfolding c3 using robust c2
    by (simp add: ReconcileChannel_enabled [OF en] Let_def clearOverride_map)
  have src3: "activeSourceMap c3 ''alpha'' = Some ''OBS''"
    unfolding c3 using robust c2
    by (simp add: ReconcileChannel_enabled [OF en] Let_def syncFromDatabase_def
        memorySource_def autoSwitch_def chf clearOverride_def hasManualLoopOverride_def)
  have d1: "map current_active_source (channels db1) = [''LOOP'']"
    by (simp add: db1 alpha_db_def alpha_row_def)
  show ?thesis
    using c1 c2 d1 db2 resp robust ov3 src3
    by (simp add: s1 s2 s3 ch_def [symmetric] Let_def hasManualLoopOverride_def)
qed

text \<open>
  The takeover endpoint installs the cooldown that the tick reads, and removes the loop
  container.
\<close>

lemma TakeoverHandler_installs_cooldown:
  assumes "TrimSuffix (TrimPrefix path ''/api/takeover/'') ''/'' = channelName"
    and "channelName \<noteq> ''''"
    and "find (\<lambda>r. row_name r = channelName \<and> row_enabled r) (channels db) = Some ch"
  shows "takeoverCooldown (fst (TakeoverHandler c db now ''POST'' path remoteAddr))
           = (takeoverCooldown c)(channelName \<mapsto> now)"
    and "fst (snd (snd (TakeoverHandler c db now ''POST'' path remoteAddr)))
           = [ContainerRemove (''loop-'' @ channelName)]"
  using assms
  by (simp_all add: TakeoverHandler_def Let_def EnsureContainerStopped_def)

lemma takeover_alpha:
  "takeoverCooldown
     (fst (TakeoverHandler fresh alpha_db 0 ''POST'' ''/api/takeover/alpha'' ''10.0.0.1''))
     = takeoverCooldown cooling"
proof -
  have p: "TrimSuffix (TrimPrefix ''/api/takeover/alpha'' ''/api/takeover/'') ''/'' = ''alpha''"
    by (simp add: TrimSuffix_def TrimPrefix_def HasPrefix_def HasSuffix_def)
  have f: "find (\<lambda>r. row_name r = ''alpha'' \<and> row_enabled r) (channels alpha_db)
      = Some alpha_row"
    by (simp add: alpha_db_def alpha_row_def)
  show ?thesis
    using TakeoverHandler_installs_cooldown(1) [OF p _ f, of fresh 0 "''10.0.0.1''"]
    by (simp add: cooling_def fresh_def NewController_def)
qed

subsection \<open>The relay\<close>

text \<open>Distributor management.\<close>

lemma startMissing_frame [simp]:
  "currentConfig (fst (startMissing ds s)) = currentConfig s"
  "currentMode (fst (startMissing ds s)) = currentMode s"
  "loopCmd (fst (startMissing ds s)) = loopCmd s"
  "obsCmd (fst (startMissing ds s)) = obsCmd s"
  "transcoderCmd (fst (startMissing ds s)) = transcoderCmd s"
  "failureCounts (fst (startMissing ds s)) = failureCounts s"
  by (induction ds s rule: startMissing.induct; simp add: case_prod_unfold Let_def)+







lemma deleteRemoved_frame [simp]:
  "currentConfig (deleteRemoved ds s) = currentConfig s"
  "currentMode (deleteRemoved ds s) = currentMode s"
  "loopCmd (deleteRemoved ds s) = loopCmd s"
  "obsCmd (deleteRemoved ds s) = obsCmd s"
  "transcoderCmd (deleteRemoved ds s) = transcoderCmd s"
  by (simp_all add: deleteRemoved_def)


lemma manageDistributors_frame [simp]:
  "currentConfig (fst (manageDistributors s ds)) = currentConfig s"
  "currentMode (fst (manageDistributors s ds)) = currentMode s"
  "loopCmd (fst (manageDistributors s ds)) = loopCmd s"
  "obsCmd (fst (manageDistributors s ds)) = obsCmd s"
  "transcoderCmd (fst (manageDistributors s ds)) = transcoderCmd s"
  by (simp_all add: manageDistributors_def case_prod_unfold Let_def)










lemma failCount_upd [simp]:
  "failCount (s\<lparr>failureCounts := (failureCounts s)(u \<mapsto> v)\<rparr>) u = v"
  "failCount (s\<lparr>distributors := ds\<rparr>) u = failCount s u"
  by (simp_all add: failCount_def)



lemma distributorExit_config [simp]:
  "currentConfig (fst (distributorExit s destURL pid status elapsed)) = currentConfig s"
  by (simp add: distributorExit_def Let_def)










end
